theory Spec2Isabelle
  imports Main
begin

section \<open>Console output and text helpers\<close>

text \<open>
  The command-line front end of gvasm (\<^verbatim>\<open>src/main.ts\<close>) turns the argument vector into a
  command descriptor or an exit code, printing with \<^verbatim>\<open>console.log\<close> and
  \<^verbatim>\<open>console.error\<close> on the way. The embedding threads the printed lines through every
  function as a list, oldest first.
\<close>

text \<open>
  A number of the source is a double. What \<^verbatim>\<open>parseInt\<close> can return is kept as it is:
  \<open>NaN\<close>; the negative zero; \<open>Num n\<close>, the integer \<open>n\<close> held exactly, which a double
  does up to \<^verbatim>\<open>2^53\<close> in magnitude; \<open>Rounded n\<close>, the double the source rounds the
  integer \<open>n\<close> to when \<open>n\<close> is beyond \<^verbatim>\<open>2^53\<close> in magnitude (a double of magnitude at
  least \<^verbatim>\<open>2^53\<close>, infinite past the largest double), whose value is not computed here.
\<close>

datatype js_number = NaN | NegZero | Num int | Rounded int

text \<open>
  A printed line: \<^verbatim>\<open>console.log\<close> of a text, \<^verbatim>\<open>console.error\<close> of a text, or
  \<^verbatim>\<open>console.error\<close> of a template literal that ends in a number: the text before the
  number, and the number, which the source prints as it prints a double.
\<close>

datatype out = Log string | Error string | ErrorNumber string js_number

definition dquote :: string where
  "dquote = [CHR 0x22]"

definition squote :: string where
  "squote = [CHR 0x27]"

definition newline :: string where
  "newline = [CHR 0x0A]"

text \<open>A template literal spanning several source lines: the lines joined by line feeds.\<close>

fun joinLines :: "string list \<Rightarrow> string" where
  "joinLines [] = []"
| "joinLines [l] = l"
| "joinLines (l # ls) = l @ newline @ joinLines ls"

text \<open>
  A small natural number to text, as a template literal prints it: decimal, no padding.
  It prints the three parts of the version, each below 1000.
\<close>

fun showNat :: "nat \<Rightarrow> string" where
  "showNat n =
     (if n < 10 then [''0123456789'' ! n]
      else showNat (n div 10) @ [''0123456789'' ! (n mod 10)])"

declare showNat.simps [simp del]

section \<open>Version banner and help texts\<close>

definition version :: nat where
  "version = 2003003"

definition printVersion :: "out list" where
  "printVersion =
     (let vmaj = (version div 1000000) mod 1000;
          vmin = (version div 1000) mod 1000;
          vpat = version mod 1000
      in [Log (joinLines
        [''gvasm - Assembler and disassembler for Game Boy Advance homebrew'',
         ''by Sean Connelly (@velipso), https://sean.fun'',
         ''Project Home: https://github.com/velipso/gvasm'',
         ''SPDX-License-Identifier: 0BSD'',
         ''Version: '' @ showNat vmaj @ ''.'' @ showNat vmin @ ''.'' @ showNat vpat])])"

definition printHelp :: "out list" where
  "printHelp = [Log (joinLines
     [''gvasm <command> [<args...>]'',
      '''',
      ''Command Summary:'',
      ''  init      Create a skeleton project'',
      ''  make      Compile a project into a .gba file'',
      ''  run       Run a .gvasm file in debug mode'',
      ''  dis       Disassemble a .gba file into a source'',
      ''  itest     Run internal tests to verify correct behavior'',
      '''',
      ''For more help, try:'',
      ''  gvasm <command> --help''])]"

definition printInitHelp :: "out list" where
  "printInitHelp = [Log (joinLines
     [''gvasm init <output> [-t <title>] [-i <initials>] [-m <maker>] [-v <version>]'',
      ''                    [-r <region>] [-c <code>] [--overwrite]'',
      '''',
      ''<output>       The output .gvasm file'',
      ''-t <title>     Game title (max of 12 characters, default '' @ dquote @ ''Game'' @ dquote @ '')'',
      ''-i <initials>  Game initials (must be 2 characters, defaults to title)'',
      ''-m <maker>     Game maker (must be 2 characters, default '' @ dquote @ ''77'' @ dquote @ '')'',
      ''-v <version>   Game version (must be number from 0..255, default 0)'',
      ''-r <region>    Game region (must be 1 character, default '' @ dquote @ ''E'' @ dquote @ ''):'',
      ''                 D  German       E  English       F  French'',
      ''                 I  Italian      J  Japanese      P  European'',
      ''                 S  Spanish'',
      ''-c <code>      Game code (must be 1 character, default '' @ dquote @ ''C'' @ dquote @ ''):'',
      ''                 A  Normal game (titles released pre-2003)'',
      ''                 B  Normal game (titles released 2003+)'',
      ''                 C  Normal game (newer titles)'',
      ''                 F  Famicom/Classic NES'',
      ''                 K  Yoshi and Koro Koro Puzzle (acceleration sensor)'',
      ''                 P  e-Reader (dot-code scanner)'',
      ''                 R  Warioware Twisted (rumble and z-axis gyro sensor)'',
      ''                 U  Baktai 1 and 2 (real-time clock and solar sensor)'',
      ''                 V  Drill Dozer (rumble)'',
      ''--overwrite    Overwrite the output file if it exists''])]"

definition printMakeHelp :: "out list" where
  "printMakeHelp = [Log (joinLines
     [''gvasm make <input> [-o <output>] [-d NAME=value] [-w] [-x cmd]'',
      '''',
      ''<input>        The input .gvasm file'',
      ''-o <output>    The output file (default: input with .gba extension)'',
      ''-d NAME=value  Define the global NAME, set to value (string or integer), ex:'',
      ''               -d FOO=1 -d BAR=bar      is equivalent to:'',
      ''               .script'',
      ''                 export FOO = 1'',
      ''                 export BAR = '' @ dquote @ ''bar'' @ dquote,
      ''               .end'',
      ''-w             Watch for file changes, and recompile incrementally'',
      ''-x cmd         Run '' @ squote @ ''cmd'' @ squote @ '' after the output file is written, ex:'',
      ''               -x '' @ squote @ ''open -F -g {}'' @ squote,
      ''               The '' @ squote @ ''{}'' @ squote @ '' is replaced with the output filename''])]"

definition printRunHelp :: "out list" where
  "printRunHelp = [Log (joinLines
     [''gvasm run <input> [-d NAME=value] [-w]'',
      '''',
      ''<input>        The input .gvasm file'',
      ''-d NAME=value  Define the global NAME, set to value (string or integer), ex:'',
      ''               -d FOO=1 -d BAR=bar      is equivalent to:'',
      ''               .script'',
      ''                 export FOO = 1'',
      ''                 export BAR = '' @ dquote @ ''bar'' @ dquote,
      ''               .end'',
      ''-w             Watch for file changes, and rerun automatically''])]"

definition printDisHelp :: "out list" where
  "printDisHelp = [Log (joinLines
     [''gvasm dis <input> [-o <output>] [-f <format>]'',
      '''',
      ''<input>      The input .gba or .bin file'',
      ''-o <output>  The output file (default: input with .gvasm extension)'',
      ''-f <format>  The input format (default: gba)'',
      ''               gba  Input is a .gba file'',
      ''               bin  Input is a .bin file (typically for BIOS)''])]"

definition printItestHelp :: "out list" where
  "printItestHelp = [Log (joinLines
     [''gvasm itest [<filters...>]'',
      '''',
      ''<filters>  Only run internal tests that include any filter''])]"

section \<open>The flag parser\<close>

text \<open>
  What \<^verbatim>\<open>argParse\<close> hands back, together with what the \<^verbatim>\<open>unknown\<close> callback of the
  caller did meanwhile: the flag map \<^verbatim>\<open>a\<close> by canonical name, the positional operands
  \<^verbatim>\<open>a._\<close>, the lines printed so far and the caller's \<^verbatim>\<open>badArgs\<close> variable.
\<close>

datatype arg_value = VBool bool | VString string | VList "string list"

record parse_state =
  flags :: "string \<rightharpoonup> arg_value"
  positional :: "string list"
  console :: "out list"
  badArgs :: bool

record flag_schema =
  string_flags :: "string list"
  collect_flags :: "string list"
  boolean_flags :: "string list"
  aliases :: "(string \<times> string) list"
  stopEarly :: bool

text \<open>
  The callback every one of the five parse functions passes as \<^verbatim>\<open>unknown\<close>
  (\<^verbatim>\<open>main.ts\<close> lines 85-92, 198-205, 259-266, 307-314, 357-364): with a key it prints,
  sets \<^verbatim>\<open>badArgs\<close> and answers false; without one (a positional operand) it answers
  true. An empty key is falsy in the source.
\<close>

definition unknown :: "string \<Rightarrow> string option \<Rightarrow> parse_state \<Rightarrow> bool \<times> parse_state" where
  "unknown arg key st =
     (case key of
        None \<Rightarrow> (True, st)
      | Some k \<Rightarrow>
          if k \<noteq> [] then
            (False, st\<lparr>console := console st @ [Error (''Unknown argument: -'' @ k)],
                       badArgs := True\<rparr>)
          else (True, st))"

text \<open>
  Reading a property of \<^verbatim>\<open>a\<close>: a string flag is a string or undefined, a boolean flag
  is tested for truth, a collect flag is a list or undefined.
\<close>

definition str_flag :: "parse_state \<Rightarrow> string \<Rightarrow> string option" where
  "str_flag st k = (case flags st k of Some (VString s) \<Rightarrow> Some s | _ \<Rightarrow> None)"

definition bool_flag :: "parse_state \<Rightarrow> string \<Rightarrow> bool" where
  "bool_flag st k = (case flags st k of Some (VBool b) \<Rightarrow> b | _ \<Rightarrow> False)"

definition list_flag :: "parse_state \<Rightarrow> string \<Rightarrow> string list option" where
  "list_flag st k = (case flags st k of Some (VList xs) \<Rightarrow> Some xs | _ \<Rightarrow> None)"

text \<open>
  Modelled from the spec: \<^verbatim>\<open>argParse\<close> is imported from \<^verbatim>\<open>deps.ts\<close>, which is not
  among the sources. The definitions from \<open>split_eq\<close> to \<open>argParse\<close> follow section
  4.1 of the specification: aliases resolve to the canonical name; a boolean flag is
  set by its presence (an inline \<^verbatim>\<open>=false\<close> clears it); a string flag takes its inline
  value, else the following token when that is not itself a flag, else the empty
  string; a collect flag appends; any other token is a positional operand, kept as
  text; with \<^verbatim>\<open>stopEarly\<close> everything after the first positional operand is
  positional; an unrecognised flag goes to the callback and is dropped when the
  callback answers false. A flag token is \<^verbatim>\<open>-key\<close> or \<^verbatim>\<open>--key\<close>, optionally followed
  by \<^verbatim>\<open>=value\<close>, with a non-empty key.
\<close>

text \<open>Splitting a flag token at its first equals sign: the key and the inline value.\<close>

fun split_eq :: "string \<Rightarrow> string \<times> string option" where
  "split_eq [] = ([], None)"
| "split_eq (c # cs) =
     (if c = CHR ''='' then ([], Some cs)
      else (case split_eq cs of (k, v) \<Rightarrow> (c # k, v)))"

definition flag_key :: "string \<Rightarrow> (string \<times> string option) option" where
  "flag_key tok =
     (if take 2 tok = ''--'' then
        (if fst (split_eq (drop 2 tok)) = [] then None else Some (split_eq (drop 2 tok)))
      else if take 1 tok = ''-'' then
        (if fst (split_eq (drop 1 tok)) = [] then None else Some (split_eq (drop 1 tok)))
      else None)"

definition canonical :: "flag_schema \<Rightarrow> string \<Rightarrow> string" where
  "canonical sch k = (case map_of (aliases sch) k of Some long \<Rightarrow> long | None \<Rightarrow> k)"

definition argDefined :: "flag_schema \<Rightarrow> string \<Rightarrow> bool" where
  "argDefined sch k =
     (canonical sch k \<in> set (boolean_flags sch) \<or> canonical sch k \<in> set (string_flags sch))"

definition setKey :: "flag_schema \<Rightarrow> string \<Rightarrow> string \<Rightarrow> parse_state \<Rightarrow> parse_state" where
  "setKey sch k v st =
     (if canonical sch k \<in> set (collect_flags sch) then
        st\<lparr>flags := (flags st)(canonical sch k \<mapsto>
              VList ((case list_flag st (canonical sch k) of Some xs \<Rightarrow> xs | None \<Rightarrow> []) @ [v]))\<rparr>
      else st\<lparr>flags := (flags st)(canonical sch k \<mapsto> VString v)\<rparr>)"

definition setBool :: "flag_schema \<Rightarrow> string \<Rightarrow> bool \<Rightarrow> parse_state \<Rightarrow> parse_state" where
  "setBool sch k b st = st\<lparr>flags := (flags st)(canonical sch k \<mapsto> VBool b)\<rparr>"

text \<open>The scan of the tokens, left to right.\<close>

fun argLoop :: "flag_schema \<Rightarrow> string list \<Rightarrow> parse_state \<Rightarrow> parse_state" where
  "argLoop sch [] st = st"
| "argLoop sch (tok # rest) st =
     (case flag_key tok of
        None \<Rightarrow>
          (case unknown tok None st of
             (keep, st') \<Rightarrow>
               if stopEarly sch then
                 (if keep then st'\<lparr>positional := positional st' @ tok # rest\<rparr>
                  else st'\<lparr>positional := positional st' @ rest\<rparr>)
               else argLoop sch rest
                      (if keep then st'\<lparr>positional := positional st' @ [tok]\<rparr> else st'))
      | Some (key, inline) \<Rightarrow>
          if \<not> argDefined sch key then
            (case unknown tok (Some key) st of
               (keep, st') \<Rightarrow> argLoop sch rest (if keep then setBool sch key True st' else st'))
          else if canonical sch key \<in> set (boolean_flags sch) then
            argLoop sch rest (setBool sch key (inline \<noteq> Some ''false'') st)
          else
            (case inline of
               Some v \<Rightarrow> argLoop sch rest (setKey sch key v st)
             | None \<Rightarrow>
                 (case rest of
                    [] \<Rightarrow> setKey sch key [] st
                  | nxt # rest' \<Rightarrow>
                      if flag_key nxt = None then argLoop sch rest' (setKey sch key nxt st)
                      else argLoop sch rest (setKey sch key [] st))))"

text \<open>After the scan: an absent boolean flag reads false, an absent collect flag an empty list.\<close>

fun fillDefaults :: "string list \<Rightarrow> arg_value \<Rightarrow> parse_state \<Rightarrow> parse_state" where
  "fillDefaults [] d st = st"
| "fillDefaults (k # ks) d st =
     fillDefaults ks d (if flags st k = None then st\<lparr>flags := (flags st)(k \<mapsto> d)\<rparr> else st)"

definition argParse :: "flag_schema \<Rightarrow> string list \<Rightarrow> parse_state" where
  "argParse sch args =
     fillDefaults (collect_flags sch) (VList [])
       (fillDefaults (boolean_flags sch) (VBool False)
          (argLoop sch args \<lparr>flags = Map.empty, positional = [], console = [], badArgs = False\<rparr>))"







section \<open>The init command\<close>

record init_args =
  init_output :: string
  init_title :: string
  init_initials :: string
  init_maker :: string
  init_version :: int
  init_region :: string
  init_code :: string
  init_overwrite :: bool

definition init_schema :: flag_schema where
  "init_schema =
     \<lparr>string_flags = [''title'', ''initials'', ''maker'', ''version'', ''region'', ''code''],
      collect_flags = [],
      boolean_flags = [''help'', ''overwrite''],
      aliases = [(''h'', ''help''), (''t'', ''title''), (''i'', ''initials''), (''m'', ''maker''),
                 (''v'', ''version''), (''r'', ''region''), (''c'', ''code'')],
      stopEarly = False\<rparr>"

text \<open>The operator \<^verbatim>\<open>??\<close>: the left operand unless it is undefined.\<close>

definition nullish :: "'a option \<Rightarrow> 'a \<Rightarrow> 'a" where
  "nullish v d = (case v of None \<Rightarrow> d | Some x \<Rightarrow> x)"

text \<open>
  A value inside a template literal: an undefined one prints as the text
  \<^verbatim>\<open>undefined\<close>.
\<close>

definition template :: "string option \<Rightarrow> string" where
  "template v = (case v of None \<Rightarrow> ''undefined'' | Some s \<Rightarrow> s)"

text \<open>
  \<^verbatim>\<open>parseInt(s, 10)\<close>: leading white space is skipped, one sign is read, then the
  longest run of decimal digits; no digit at all gives NaN. What follows that run is
  never looked at. The result is a double: the integer the digits spell when a double
  holds it exactly, the negative zero for a minus sign before zero, and a rounded
  double beyond \<^verbatim>\<open>2^53\<close>.
\<close>

definition isWhiteSpace :: "char \<Rightarrow> bool" where
  "isWhiteSpace c = (c \<in> set [CHR 0x09, CHR 0x0A, CHR 0x0B, CHR 0x0C, CHR 0x0D, CHR 0x20, CHR 0xA0])"

definition isDigit :: "char \<Rightarrow> bool" where
  "isDigit c = (c \<in> set ''0123456789'')"

definition digitVal :: "char \<Rightarrow> nat" where
  "digitVal c = of_char c - 48"

definition digitsVal :: "string \<Rightarrow> nat" where
  "digitsVal ds = foldl (\<lambda>acc c. 10 * acc + digitVal c) 0 ds"

definition parseInt :: "string \<Rightarrow> js_number" where
  "parseInt s =
     (let t = dropWhile isWhiteSpace s;
          neg = (take 1 t = ''-'');
          u = (if take 1 t = ''-'' \<or> take 1 t = ''+'' then drop 1 t else t);
          ds = takeWhile isDigit u
      in if ds = [] then NaN
         else if int (digitsVal ds) > 9007199254740992 then
           Rounded (if neg then - int (digitsVal ds) else int (digitsVal ds))
         else if neg \<and> digitsVal ds = 0 then NegZero
         else Num (if neg then - int (digitsVal ds) else int (digitsVal ds)))"

text \<open>
  The test of lines 130-135 on the parsed version: NaN is rejected; a double that is
  an integer is rejected when below 0 or above 255; a rounded double is at least
  \<^verbatim>\<open>2^53\<close> in magnitude, so below 0 or above 255; the negative zero is neither. What is
  accepted is an integer from 0 to 255 (the negative zero counts as 0, which the
  source's comparisons equate with it).
\<close>

definition acceptedVersion :: "js_number \<Rightarrow> int option" where
  "acceptedVersion v =
     (case v of
        NaN \<Rightarrow> None
      | NegZero \<Rightarrow> Some 0
      | Num n \<Rightarrow> if n < 0 \<or> n > 255 then None else Some n
      | Rounded n \<Rightarrow> None)"

text \<open>
  The checks of \<^verbatim>\<open>parseInitArgs\<close> after the \<^verbatim>\<open>argParse\<close> call (lines 94-158), in the
  order of the source; each failure prints one line and returns 1.
\<close>

definition initChecks :: "parse_state \<Rightarrow> out list \<times> (int + init_args)" where
  "initChecks st =
     (if badArgs st then (console st, Inl 1)
      else if bool_flag st ''help'' then (console st @ printInitHelp, Inl 0)
      else if length (positional st) \<le> 0 then
        (console st @ [Error ''Missing output file''], Inl 1)
      else if length (positional st) > 1 then
        (console st @ [Error ''Can only have one output file''], Inl 1)
      else
        let output = positional st ! 0;
            title = nullish (str_flag st ''title'') ''Game''
        in
        if length title > 12 then
          (console st @ [Error (''Invalid title, must be at most 12 characters, but got: ''
              @ dquote @ title @ dquote)], Inl 1)
        else
        let initials = nullish (str_flag st ''initials'')
                         (take 2 (template (str_flag st ''title'') @ ''AA''))
        in
        if length initials \<noteq> 2 then
          (console st @ [Error (''Invalid initials, must be 2 characters, but got: ''
              @ dquote @ initials @ dquote)], Inl 1)
        else
        let maker = nullish (str_flag st ''maker'') ''77''
        in
        if length maker \<noteq> 2 then
          (console st @ [Error (''Invalid maker, must be 2 characters, but got: ''
              @ dquote @ maker @ dquote)], Inl 1)
        else
        (case acceptedVersion (parseInt (nullish (str_flag st ''version'') ''0'')) of
           None \<Rightarrow>
             (console st @ [ErrorNumber ''Invalid version, must be 0..255, but got: ''
                 (parseInt (nullish (str_flag st ''version'') ''0''))], Inl 1)
         | Some ver \<Rightarrow>
             let region = nullish (str_flag st ''region'') ''E''
             in
             if length region \<noteq> 1 then
               (console st @ [Error (''Invalid region, must be 1 character, but got: ''
                   @ dquote @ region @ dquote)], Inl 1)
             else
             let code = nullish (str_flag st ''code'') ''C''
             in
             if length code \<noteq> 1 then
               (console st @ [Error (''Invalid code, must be 1 character, but got: ''
                   @ dquote @ code @ dquote)], Inl 1)
             else
               (console st,
                Inr \<lparr>init_output = output, init_title = title, init_initials = initials,
                     init_maker = maker, init_version = ver, init_region = region,
                     init_code = code, init_overwrite = bool_flag st ''overwrite''\<rparr>)))"

definition parseInitArgs :: "string list \<Rightarrow> out list \<times> (int + init_args)" where
  "parseInitArgs args = initChecks (argParse init_schema args)"

section \<open>Defines\<close>

text \<open>
  Modelled from the spec: the type \<^verbatim>\<open>ILexKeyValue\<close> is declared in \<^verbatim>\<open>lexer.ts\<close>,
  which is not among the sources. Section 3 of the specification: a define is a name
  with a value that is an integer or a string.
\<close>

datatype kv_value = KInt int | KStr string

record lex_kv =
  def_name :: string
  def_value :: kv_value

text \<open>
  Modelled from the spec: \<^verbatim>\<open>lexKeyValue\<close> lives in \<^verbatim>\<open>lexer.ts\<close>, which is not among
  the sources. The definitions \<open>isIntLiteral\<close>, \<open>intLiteral\<close> and \<open>lexKeyValue\<close>
  follow section 4.3 of the specification: the token is split at its first equals
  sign; the name before it must be non-empty; the text after it is an integer when it
  is an optional minus sign followed by digits only, else it is kept as a string; a
  token without an equals sign, or with an empty name, fails.
\<close>

definition isIntLiteral :: "string \<Rightarrow> bool" where
  "isIntLiteral v =
     (let ds = (if take 1 v = ''-'' then drop 1 v else v)
      in ds \<noteq> [] \<and> list_all isDigit ds)"

definition intLiteral :: "string \<Rightarrow> int" where
  "intLiteral v =
     (if take 1 v = ''-'' then - int (digitsVal (drop 1 v)) else int (digitsVal v))"

definition lexKeyValue :: "string \<Rightarrow> lex_kv option" where
  "lexKeyValue tok =
     (case split_eq tok of
        (nm, None) \<Rightarrow> None
      | (nm, Some v) \<Rightarrow>
          if nm = [] then None
          else Some \<lparr>def_name = nm,
                     def_value = (if isIntLiteral v then KInt (intLiteral v) else KStr v)\<rparr>)"

text \<open>
  \<^verbatim>\<open>parseDefines\<close> (lines 178-189): the loop pushes each parsed define onto the result
  and stops at the first token that does not parse, printing it.
\<close>

fun parseDefinesLoop :: "string list \<Rightarrow> lex_kv list \<Rightarrow> out list \<times> lex_kv list option" where
  "parseDefinesLoop [] result = ([], Some result)"
| "parseDefinesLoop (d # ds) result =
     (case lexKeyValue d of
        None \<Rightarrow> ([Error (''Invalid define: '' @ d)], None)
      | Some kv \<Rightarrow> parseDefinesLoop ds (result @ [kv]))"

definition parseDefines :: "string list \<Rightarrow> out list \<times> lex_kv list option" where
  "parseDefines defines = parseDefinesLoop defines []"

section \<open>Replacing a path's extension\<close>

text \<open>
  Modelled from the spec: \<^verbatim>\<open>Path.replaceExt\<close> comes from \<^verbatim>\<open>deps.ts\<close>, which is not
  among the sources. The definitions \<open>lastSegment\<close>, \<open>extLength\<close> and
  \<open>replaceExt\<close> follow section 4.2 of the specification: the trailing extension component
  of the path, if any, is removed and the new extension appended; a path without one
  gets the new extension appended. The extension is read here as the part of the last
  path segment from its last dot on.
\<close>

definition lastSegment :: "string \<Rightarrow> string" where
  "lastSegment path = rev (takeWhile (\<lambda>c. c \<noteq> CHR ''/'') (rev path))"

definition extLength :: "string \<Rightarrow> nat" where
  "extLength path =
     (if CHR ''.'' \<in> set (lastSegment path)
      then Suc (length (takeWhile (\<lambda>c. c \<noteq> CHR ''.'') (rev path)))
      else 0)"

definition replaceExt :: "string \<Rightarrow> string \<Rightarrow> string" where
  "replaceExt path ext = take (length path - extLength path) path @ ext"

section \<open>The make, run, dis and itest commands\<close>

text \<open>
  A field that is a string or a boolean: \<^verbatim>\<open>a.execute ?? false\<close> is the string given
  with \<^verbatim>\<open>-x\<close>, or the boolean false.
\<close>

datatype js_value = JBool bool | JString string

record make_args =
  make_input :: string
  make_output :: string
  make_defines :: "lex_kv list"
  make_watch :: bool
  make_execute :: js_value

definition make_schema :: flag_schema where
  "make_schema =
     \<lparr>string_flags = [''output'', ''define'', ''execute''],
      collect_flags = [''define''],
      boolean_flags = [''help'', ''watch''],
      aliases = [(''h'', ''help''), (''o'', ''output''), (''d'', ''define''), (''w'', ''watch''),
                 (''x'', ''execute'')],
      stopEarly = False\<rparr>"

text \<open>\<^verbatim>\<open>parseMakeArgs\<close> after the \<^verbatim>\<open>argParse\<close> call (lines 207-236).\<close>

definition makeChecks :: "parse_state \<Rightarrow> out list \<times> (int + make_args)" where
  "makeChecks st =
     (if badArgs st then (console st, Inl 1)
      else if bool_flag st ''help'' then (console st @ printMakeHelp, Inl 0)
      else if length (positional st) \<le> 0 then
        (console st @ [Error ''Missing input file''], Inl 1)
      else if length (positional st) > 1 then
        (console st @ [Error ''Can only have one input file''], Inl 1)
      else
        let input = positional st ! 0;
            output = str_flag st ''output'';
            watch = bool_flag st ''watch'';
            defines = (case list_flag st ''define'' of
                         Some ds \<Rightarrow> parseDefines ds
                       | None \<Rightarrow> ([], Some []));
            execute = nullish (map_option JString (str_flag st ''execute'')) (JBool False)
        in
        (case snd defines of
           None \<Rightarrow> (console st @ fst defines, Inl 1)
         | Some ds \<Rightarrow>
             (console st @ fst defines,
              Inr \<lparr>make_input = input,
                   make_output = nullish output (replaceExt input ''.gba''),
                   make_defines = ds,
                   make_watch = watch,
                   make_execute = execute\<rparr>)))"

definition parseMakeArgs :: "string list \<Rightarrow> out list \<times> (int + make_args)" where
  "parseMakeArgs args = makeChecks (argParse make_schema args)"

text \<open>
  The descriptor \<^verbatim>\<open>parseRunArgs\<close> returns is the object literal
  \<^verbatim>\<open>{ input, defines }\<close> of line 288: two fields.
\<close>

record run_args =
  run_input :: string
  run_defines :: "lex_kv list"

definition run_schema :: flag_schema where
  "run_schema =
     \<lparr>string_flags = [''define''],
      collect_flags = [''define''],
      boolean_flags = [''help'', ''watch''],
      aliases = [(''h'', ''help''), (''d'', ''define''), (''w'', ''watch'')],
      stopEarly = False\<rparr>"

text \<open>\<^verbatim>\<open>parseRunArgs\<close> after the \<^verbatim>\<open>argParse\<close> call (lines 268-288).\<close>

definition runChecks :: "parse_state \<Rightarrow> out list \<times> (int + run_args)" where
  "runChecks st =
     (if badArgs st then (console st, Inl 1)
      else if bool_flag st ''help'' then (console st @ printRunHelp, Inl 0)
      else if length (positional st) \<le> 0 then
        (console st @ [Error ''Missing input file''], Inl 1)
      else if length (positional st) > 1 then
        (console st @ [Error ''Can only have one input file''], Inl 1)
      else
        let input = positional st ! 0;
            defines = (case list_flag st ''define'' of
                         Some ds \<Rightarrow> parseDefines ds
                       | None \<Rightarrow> ([], Some []))
        in
        (case snd defines of
           None \<Rightarrow> (console st @ fst defines, Inl 1)
         | Some ds \<Rightarrow>
             (console st @ fst defines, Inr \<lparr>run_input = input, run_defines = ds\<rparr>)))"

definition parseRunArgs :: "string list \<Rightarrow> out list \<times> (int + run_args)" where
  "parseRunArgs args = runChecks (argParse run_schema args)"

record dis_args =
  dis_input :: string
  dis_format :: string
  dis_output :: string

definition dis_schema :: flag_schema where
  "dis_schema =
     \<lparr>string_flags = [''output'', ''format''],
      collect_flags = [],
      boolean_flags = [''help''],
      aliases = [(''h'', ''help''), (''o'', ''output''), (''f'', ''format'')],
      stopEarly = False\<rparr>"

text \<open>\<^verbatim>\<open>parseDisArgs\<close> after the \<^verbatim>\<open>argParse\<close> call (lines 316-342).\<close>

definition disChecks :: "parse_state \<Rightarrow> out list \<times> (int + dis_args)" where
  "disChecks st =
     (if badArgs st then (console st, Inl 1)
      else if bool_flag st ''help'' then (console st @ printDisHelp, Inl 0)
      else if length (positional st) \<le> 0 then
        (console st @ [Error ''Missing input file''], Inl 1)
      else if length (positional st) > 1 then
        (console st @ [Error ''Can only have one input file''], Inl 1)
      else
        let input = positional st ! 0;
            format = nullish (str_flag st ''format'') ''gba''
        in
        if format \<noteq> ''gba'' \<and> format \<noteq> ''bin'' then
          (console st @ [Error (''Invalid format, must be '' @ squote @ ''gba'' @ squote
              @ '' or '' @ squote @ ''bin'' @ squote @ '', but got: '' @ format)], Inl 1)
        else
          (console st,
           Inr \<lparr>dis_input = input,
                dis_format = format,
                dis_output = nullish (str_flag st ''output'')
                               (replaceExt input ''.gvasm'')\<rparr>))"

definition parseDisArgs :: "string list \<Rightarrow> out list \<times> (int + dis_args)" where
  "parseDisArgs args = disChecks (argParse dis_schema args)"

record itest_args =
  itest_filters :: "string list"

definition itest_schema :: flag_schema where
  "itest_schema =
     \<lparr>string_flags = [],
      collect_flags = [],
      boolean_flags = [''help''],
      aliases = [(''h'', ''help'')],
      stopEarly = True\<rparr>"

text \<open>\<^verbatim>\<open>parseItestArgs\<close> after the \<^verbatim>\<open>argParse\<close> call (lines 366-373).\<close>

definition itestChecks :: "parse_state \<Rightarrow> out list \<times> (int + itest_args)" where
  "itestChecks st =
     (if badArgs st then (console st, Inl 1)
      else if bool_flag st ''help'' then (console st @ printItestHelp, Inl 0)
      else (console st, Inr \<lparr>itest_filters = positional st\<rparr>))"

definition parseItestArgs :: "string list \<Rightarrow> out list \<times> (int + itest_args)" where
  "parseItestArgs args = itestChecks (argParse itest_schema args)"

section \<open>The dispatcher\<close>

text \<open>
  \<^verbatim>\<open>main\<close> (lines 376-418) ends either with an exit code of its own or by returning
  what a collaborator (\<^verbatim>\<open>init\<close>, \<^verbatim>\<open>make\<close>, \<^verbatim>\<open>run\<close>, \<^verbatim>\<open>dis\<close>, \<^verbatim>\<open>itest\<close>)
  returns for the descriptor. The collaborators are outside this file; the call is kept
  as a value.
\<close>

datatype dispatch =
    Exit int
  | CallInit init_args
  | CallMake make_args
  | CallRun run_args
  | CallDis dis_args
  | CallItest itest_args

definition pipeline :: "('d \<Rightarrow> dispatch) \<Rightarrow> out list \<times> (int + 'd) \<Rightarrow> out list \<times> dispatch" where
  "pipeline collaborator r =
     (case snd r of
        Inl n \<Rightarrow> (fst r, Exit n)
      | Inr d \<Rightarrow> (fst r, collaborator d))"

definition main :: "string list \<Rightarrow> out list \<times> dispatch" where
  "main args =
     (if length args \<le> 0 \<or> args ! 0 = ''-h'' \<or> args ! 0 = ''--help'' then
        (printVersion @ [Log ''''] @ printHelp, Exit 0)
      else if args ! 0 = ''-v'' \<or> args ! 0 = ''--version'' then (printVersion, Exit 0)
      else if args ! 0 = ''init'' then pipeline CallInit (parseInitArgs (drop 1 args))
      else if args ! 0 = ''make'' then pipeline CallMake (parseMakeArgs (drop 1 args))
      else if args ! 0 = ''run'' then pipeline CallRun (parseRunArgs (drop 1 args))
      else if args ! 0 = ''dis'' then pipeline CallDis (parseDisArgs (drop 1 args))
      else if args ! 0 = ''itest'' then pipeline CallItest (parseItestArgs (drop 1 args))
      else ([Error (''Unknown command: '' @ args ! 0)], Exit 1))"


section \<open>Properties\<close>

subsection \<open>Defaults of init\<close>

text \<open>
  C1. The invocation \<^verbatim>\<open>init x\<close> with no flags validates, and every field of the
  descriptor but one has the documented default. The initials are computed from
  \<^verbatim>\<open>a.title\<close>, not from the defaulted \<^verbatim>\<open>title\<close>: with no \<^verbatim>\<open>-t\<close> the template
  literal reads \<^verbatim>\<open>undefinedAA\<close> and the initials are \<^verbatim>\<open>un\<close>, where the help text
  promises the first two characters of the title \<^verbatim>\<open>Game\<close>.
\<close>

theorem C1_init_without_flags:
  "parseInitArgs [''x''] =
     ([], Inr \<lparr>init_output = ''x'', init_title = ''Game'', init_initials = ''un'',
                init_maker = ''77'', init_version = 0, init_region = ''E'',
                init_code = ''C'', init_overwrite = False\<rparr>)"
  by code_simp

text \<open>
  When a title is supplied and the initials are not, the initials are the first two
  characters of the title followed by \<^verbatim>\<open>AA\<close>, as documented.
\<close>

lemma init_initials_from_given_title:
  assumes "initChecks st = (c, Inr d)"
    and "str_flag st ''initials'' = None"
    and "str_flag st ''title'' = Some t"
  shows "init_initials d = take 2 (t @ ''AA'')"
  using assms
  by (auto simp: initChecks_def Let_def template_def nullish_def split: if_splits option.splits)

subsection \<open>The scan of an argument list\<close>


declare argLoop.simps(2) [simp del]



















subsection \<open>Help and unknown flags\<close>





subsection \<open>The run descriptor\<close>

text \<open>
  C3. The descriptor of \<^verbatim>\<open>run\<close> has the fields \<^verbatim>\<open>input\<close> and \<^verbatim>\<open>defines\<close> only.
  The flag \<^verbatim>\<open>-w\<close> is declared, documented in the help text and parsed, but its value
  never reaches the descriptor: the result of the checks does not depend on it, and
  \<^verbatim>\<open>run a.gvasm -w\<close> yields the same descriptor as \<^verbatim>\<open>run a.gvasm\<close>.
\<close>

theorem C3_run_descriptor_has_no_watch:
  "runChecks (st\<lparr>flags := (flags st)(''watch'' \<mapsto> VBool w)\<rparr>) = runChecks st
   \<and> parseRunArgs [''a.gvasm'', ''-w''] = ([], Inr \<lparr>run_input = ''a.gvasm'', run_defines = []\<rparr>)
   \<and> parseRunArgs [''a.gvasm''] = ([], Inr \<lparr>run_input = ''a.gvasm'', run_defines = []\<rparr>)
   \<and> bool_flag (argParse run_schema [''a.gvasm'', ''-w'']) ''watch''
   \<and> \<not> bool_flag (argParse run_schema [''a.gvasm'']) ''watch''"
proof -
  have "runChecks (st\<lparr>flags := (flags st)(''watch'' \<mapsto> VBool w)\<rparr>) = runChecks st"
    by (simp add: runChecks_def bool_flag_def list_flag_def Let_def cong: option.case_cong)
  moreover have "parseRunArgs [''a.gvasm'', ''-w'']
      = ([], Inr \<lparr>run_input = ''a.gvasm'', run_defines = []\<rparr>)"
    by code_simp
  moreover have "parseRunArgs [''a.gvasm'']
      = ([], Inr \<lparr>run_input = ''a.gvasm'', run_defines = []\<rparr>)"
    by code_simp
  moreover have "bool_flag (argParse run_schema [''a.gvasm'', ''-w'']) ''watch''"
    by code_simp
  moreover have "\<not> bool_flag (argParse run_schema [''a.gvasm'']) ''watch''"
    by code_simp
  ultimately show ?thesis by simp
qed

subsection \<open>Exactly one positional operand\<close>






subsection \<open>The dispatcher\<close>

text \<open>What \<^verbatim>\<open>printVersion\<close> and \<^verbatim>\<open>printHelp\<close> print, character by character.\<close>

lemma printVersion_text:
  "printVersion =
     [Log ''gvasm - Assembler and disassembler for Game Boy Advance homebrew\<newline>by Sean Connelly (@velipso), https://sean.fun\<newline>Project Home: https://github.com/velipso/gvasm\<newline>SPDX-License-Identifier: 0BSD\<newline>Version: 2.3.3'']"
  by (simp add: printVersion_def version_def showNat.simps newline_def)

lemma printHelp_text:
  "printHelp =
     [Log ''gvasm <command> [<args...>]\<newline>\<newline>Command Summary:\<newline>  init      Create a skeleton project\<newline>  make      Compile a project into a .gba file\<newline>  run       Run a .gvasm file in debug mode\<newline>  dis       Disassemble a .gba file into a source\<newline>  itest     Run internal tests to verify correct behavior\<newline>\<newline>For more help, try:\<newline>  gvasm <command> --help'']"
  by (simp add: printHelp_def newline_def)

text \<open>
  A command's pipeline: what its parse function printed, and then its exit code, or the
  call of the collaborator on its descriptor.
\<close>

lemma pipeline_result:
  "pipeline collaborator r =
     (fst r, case snd r of Inl n \<Rightarrow> Exit n | Inr d \<Rightarrow> collaborator d)"
  by (simp add: pipeline_def split: sum.splits)

text \<open>
  C5. \<^verbatim>\<open>main\<close> on the argument vector. Empty, or first token \<^verbatim>\<open>-h\<close> or \<^verbatim>\<open>--help\<close>:
  it prints the version banner (five lines, the last one \<^verbatim>\<open>Version: 2.3.3\<close>), an empty
  line and the command summary, and returns 0. First token \<^verbatim>\<open>-v\<close> or \<^verbatim>\<open>--version\<close>:
  it prints the banner and returns 0. First token one of the five commands: it runs
  that command's parse function on the remaining tokens, prints what that prints, and
  returns its exit code when it gives one, else the result of the command's
  collaborator on the descriptor. Any other first token: it prints
  \<^verbatim>\<open>Unknown command:\<close> and the token to the error stream and returns 1.
\<close>

theorem C5_main_dispatch:
  "main [] =
     ([Log ''gvasm - Assembler and disassembler for Game Boy Advance homebrew\<newline>by Sean Connelly (@velipso), https://sean.fun\<newline>Project Home: https://github.com/velipso/gvasm\<newline>SPDX-License-Identifier: 0BSD\<newline>Version: 2.3.3'',
       Log '''',
       Log ''gvasm <command> [<args...>]\<newline>\<newline>Command Summary:\<newline>  init      Create a skeleton project\<newline>  make      Compile a project into a .gba file\<newline>  run       Run a .gvasm file in debug mode\<newline>  dis       Disassemble a .gba file into a source\<newline>  itest     Run internal tests to verify correct behavior\<newline>\<newline>For more help, try:\<newline>  gvasm <command> --help''],
      Exit 0)
   \<and> main (''-h'' # rest) = main []
   \<and> main (''--help'' # rest) = main []
   \<and> main (''-v'' # rest) =
     ([Log ''gvasm - Assembler and disassembler for Game Boy Advance homebrew\<newline>by Sean Connelly (@velipso), https://sean.fun\<newline>Project Home: https://github.com/velipso/gvasm\<newline>SPDX-License-Identifier: 0BSD\<newline>Version: 2.3.3''],
      Exit 0)
   \<and> main (''--version'' # rest) = main (''-v'' # rest)
   \<and> main (''init'' # rest) =
       (fst (parseInitArgs rest),
        case snd (parseInitArgs rest) of Inl n \<Rightarrow> Exit n | Inr d \<Rightarrow> CallInit d)
   \<and> main (''make'' # rest) =
       (fst (parseMakeArgs rest),
        case snd (parseMakeArgs rest) of Inl n \<Rightarrow> Exit n | Inr d \<Rightarrow> CallMake d)
   \<and> main (''run'' # rest) =
       (fst (parseRunArgs rest),
        case snd (parseRunArgs rest) of Inl n \<Rightarrow> Exit n | Inr d \<Rightarrow> CallRun d)
   \<and> main (''dis'' # rest) =
       (fst (parseDisArgs rest),
        case snd (parseDisArgs rest) of Inl n \<Rightarrow> Exit n | Inr d \<Rightarrow> CallDis d)
   \<and> main (''itest'' # rest) =
       (fst (parseItestArgs rest),
        case snd (parseItestArgs rest) of Inl n \<Rightarrow> Exit n | Inr d \<Rightarrow> CallItest d)
   \<and> (tok \<notin> set [''-h'', ''--help'', ''-v'', ''--version'', ''init'', ''make'', ''run'', ''dis'',
                    ''itest''] \<longrightarrow>
        main (tok # rest) = ([Error (''Unknown command: '' @ tok)], Exit 1))"
proof -
  have top: "main [] = (printVersion @ [Log ''''] @ printHelp, Exit 0)"
      "main (''-h'' # rest) = main []" "main (''--help'' # rest) = main []"
      "main (''-v'' # rest) = (printVersion, Exit 0)"
      "main (''--version'' # rest) = main (''-v'' # rest)"
    by (simp_all add: main_def)
  have cmd: "main (''init'' # rest) = pipeline CallInit (parseInitArgs rest)"
      "main (''make'' # rest) = pipeline CallMake (parseMakeArgs rest)"
      "main (''run'' # rest) = pipeline CallRun (parseRunArgs rest)"
      "main (''dis'' # rest) = pipeline CallDis (parseDisArgs rest)"
      "main (''itest'' # rest) = pipeline CallItest (parseItestArgs rest)"
    by (simp_all add: main_def)
  have other: "tok \<notin> set [''-h'', ''--help'', ''-v'', ''--version'', ''init'', ''make'', ''run'',
                    ''dis'', ''itest''] \<longrightarrow>
        main (tok # rest) = ([Error (''Unknown command: '' @ tok)], Exit 1)"
    by (simp add: main_def)
  show ?thesis
    unfolding top cmd pipeline_result printVersion_text printHelp_text
    using other by simp
qed

theorem C5_main_dispatch_witness:
  "main [''assemble'', ''a.gvasm''] = ([Error ''Unknown command: assemble''], Exit 1)
   \<and> main [''dis''] = ([Error ''Missing input file''], Exit 1)
   \<and> main [''itest'', ''foo'', ''-h''] = ([], CallItest \<lparr>itest_filters = [''foo'', ''-h'']\<rparr>)
   \<and> main [''run'', ''a.gvasm''] = ([], CallRun \<lparr>run_input = ''a.gvasm'', run_defines = []\<rparr>)"
proof -
  have t: "''assemble'' \<notin> set [''-h'', ''--help'', ''-v'', ''--version'', ''init'', ''make'', ''run'',
      ''dis'', ''itest'']"
    by simp
  have p: "parseDisArgs [] = ([Error ''Missing input file''], Inl 1)"
      "parseItestArgs [''foo'', ''-h''] = ([], Inr \<lparr>itest_filters = [''foo'', ''-h'']\<rparr>)"
      "parseRunArgs [''a.gvasm''] = ([], Inr \<lparr>run_input = ''a.gvasm'', run_defines = []\<rparr>)"
    by code_simp+
  show ?thesis
    using C5_main_dispatch [of "[''a.gvasm'']" "''assemble''"] C5_main_dispatch [of "[]"]
      C5_main_dispatch [of "[''foo'', ''-h'']"] C5_main_dispatch [of "[''a.gvasm'']"] t p
    by simp
qed

subsection \<open>The format of dis\<close>

text \<open>
  C6, as claimed, fails on two invocations with the format \<^verbatim>\<open>xyz\<close>. \<^verbatim>\<open>dis -f xyz\<close>
  has no positional operand: the exit code is 1, but the message is the one about the
  missing input file and does not name the value. \<^verbatim>\<open>dis rom.bin -f xyz -h\<close> prints
  the help and returns 0. Both are answered before the format is looked at.
\<close>

theorem C6_format_check_not_reached_counterexample:
  "parseDisArgs [''-f'', ''xyz''] = ([Error ''Missing input file''], Inl 1)
   \<and> parseDisArgs [''rom.bin'', ''-f'', ''xyz'', ''-h''] = (printDisHelp, Inl 0)"
proof -
  have "parseDisArgs [''-f'', ''xyz''] = ([Error ''Missing input file''], Inl 1)"
    by code_simp
  moreover have "bool_flag (argParse dis_schema [''rom.bin'', ''-f'', ''xyz'', ''-h'']) ''help''"
      "\<not> badArgs (argParse dis_schema [''rom.bin'', ''-f'', ''xyz'', ''-h''])"
      "console (argParse dis_schema [''rom.bin'', ''-f'', ''xyz'', ''-h'']) = []"
    by code_simp+
  ultimately show ?thesis
    by (simp add: parseDisArgs_def disChecks_def)
qed

text \<open>
  C6, amended. For dis, the format is \<^verbatim>\<open>gba\<close> when \<^verbatim>\<open>-f\<close> is absent. A format other
  than exactly \<^verbatim>\<open>gba\<close> or \<^verbatim>\<open>bin\<close> never yields a descriptor. What it yields is decided
  in the order of the checks: exit code 1 after an unrecognised flag; else the help and
  exit code 0 when help was requested; else exit code 1 with the message about the
  operands when there is not exactly one; else exit code 1 with the message that names
  the value. So the exit code is 1 unless help was requested, and the message names the
  value when the format check is reached. The formats \<^verbatim>\<open>gba\<close> and \<^verbatim>\<open>bin\<close> are
  accepted as they are.
\<close>

theorem C6_dis_format:
  "(str_flag st ''format'' = None \<and> disChecks st = (c, Inr d) \<longrightarrow> dis_format d = ''gba'')
   \<and> (str_flag st ''format'' = None \<and> \<not> badArgs st \<and> \<not> bool_flag st ''help''
        \<and> length (positional st) = 1 \<longrightarrow>
        (\<exists>d'. disChecks st = (console st, Inr d') \<and> dis_format d' = ''gba''))
   \<and> (str_flag st ''format'' = Some f \<and> f \<noteq> ''gba'' \<and> f \<noteq> ''bin'' \<longrightarrow>
        (\<forall>d'. snd (disChecks st) \<noteq> Inr d')
        \<and> (\<not> bool_flag st ''help'' \<longrightarrow> snd (disChecks st) = Inl 1)
        \<and> (\<not> badArgs st \<and> \<not> bool_flag st ''help'' \<and> length (positional st) = 1 \<longrightarrow>
             disChecks st =
               (console st @ [Error (''Invalid format, must be '' @ squote @ ''gba'' @ squote
                  @ '' or '' @ squote @ ''bin'' @ squote @ '', but got: '' @ f)], Inl 1))
        \<and> disChecks st =
             (if badArgs st then (console st, Inl 1)
              else if bool_flag st ''help'' then (console st @ printDisHelp, Inl 0)
              else if positional st = [] then (console st @ [Error ''Missing input file''], Inl 1)
              else if 1 < length (positional st)
                then (console st @ [Error ''Can only have one input file''], Inl 1)
              else (console st @ [Error (''Invalid format, must be '' @ squote @ ''gba'' @ squote
                  @ '' or '' @ squote @ ''bin'' @ squote @ '', but got: '' @ f)], Inl 1)))
   \<and> (str_flag st ''format'' = Some f \<and> (f = ''gba'' \<or> f = ''bin'') \<and> \<not> badArgs st
        \<and> \<not> bool_flag st ''help'' \<and> length (positional st) = 1 \<longrightarrow>
        (\<exists>d'. disChecks st = (console st, Inr d') \<and> dis_format d' = f))"
proof -
  have a: "str_flag st ''format'' = None \<and> disChecks st = (c, Inr d) \<longrightarrow> dis_format d = ''gba''"
    by (auto simp: disChecks_def Let_def nullish_def split: if_splits)
  have b: "str_flag st ''format'' = None \<and> \<not> badArgs st \<and> \<not> bool_flag st ''help''
        \<and> length (positional st) = 1 \<longrightarrow>
        (\<exists>d'. disChecks st = (console st, Inr d') \<and> dis_format d' = ''gba'')"
    by (simp add: disChecks_def Let_def nullish_def)
  have c1: "str_flag st ''format'' = Some f \<and> f \<noteq> ''gba'' \<and> f \<noteq> ''bin'' \<longrightarrow>
        (\<forall>d'. snd (disChecks st) \<noteq> Inr d')"
    by (simp add: disChecks_def Let_def nullish_def)
  have c2: "str_flag st ''format'' = Some f \<and> f \<noteq> ''gba'' \<and> f \<noteq> ''bin'' \<longrightarrow>
        (\<not> bool_flag st ''help'' \<longrightarrow> snd (disChecks st) = Inl 1)"
    by (simp add: disChecks_def Let_def nullish_def)
  have c3: "str_flag st ''format'' = Some f \<and> f \<noteq> ''gba'' \<and> f \<noteq> ''bin'' \<longrightarrow>
        (\<not> badArgs st \<and> \<not> bool_flag st ''help'' \<and> length (positional st) = 1 \<longrightarrow>
             disChecks st =
               (console st @ [Error (''Invalid format, must be '' @ squote @ ''gba'' @ squote
                  @ '' or '' @ squote @ ''bin'' @ squote @ '', but got: '' @ f)], Inl 1))"
    by (simp add: disChecks_def Let_def nullish_def)
  have c4: "str_flag st ''format'' = Some f \<and> f \<noteq> ''gba'' \<and> f \<noteq> ''bin'' \<longrightarrow>
        disChecks st =
             (if badArgs st then (console st, Inl 1)
              else if bool_flag st ''help'' then (console st @ printDisHelp, Inl 0)
              else if positional st = [] then (console st @ [Error ''Missing input file''], Inl 1)
              else if 1 < length (positional st)
                then (console st @ [Error ''Can only have one input file''], Inl 1)
              else (console st @ [Error (''Invalid format, must be '' @ squote @ ''gba'' @ squote
                  @ '' or '' @ squote @ ''bin'' @ squote @ '', but got: '' @ f)], Inl 1))"
    by (simp add: disChecks_def Let_def nullish_def)
  have e: "str_flag st ''format'' = Some f \<and> (f = ''gba'' \<or> f = ''bin'') \<and> \<not> badArgs st
        \<and> \<not> bool_flag st ''help'' \<and> length (positional st) = 1 \<longrightarrow>
        (\<exists>d'. disChecks st = (console st, Inr d') \<and> dis_format d' = f)"
    by (auto simp: disChecks_def Let_def nullish_def)
  from a b c1 c2 c3 c4 e show ?thesis by blast
qed

theorem C6_dis_format_witness:
  "parseDisArgs [''rom.bin'', ''-f'', ''xyz''] =
     ([Error (''Invalid format, must be '' @ squote @ ''gba'' @ squote
                  @ '' or '' @ squote @ ''bin'' @ squote @ '', but got: xyz'')], Inl 1)
   \<and> (\<exists>d. parseDisArgs [''rom.bin''] = ([], Inr d) \<and> dis_format d = ''gba'')
   \<and> (\<exists>d. parseDisArgs [''rom.bin'', ''-f'', ''bin''] = ([], Inr d) \<and> dis_format d = ''bin'')"
proof -
  have x: "str_flag (argParse dis_schema [''rom.bin'', ''-f'', ''xyz'']) ''format'' = Some ''xyz''"
      "\<not> badArgs (argParse dis_schema [''rom.bin'', ''-f'', ''xyz''])"
      "\<not> bool_flag (argParse dis_schema [''rom.bin'', ''-f'', ''xyz'']) ''help''"
      "length (positional (argParse dis_schema [''rom.bin'', ''-f'', ''xyz''])) = 1"
      "console (argParse dis_schema [''rom.bin'', ''-f'', ''xyz'']) = []"
    by code_simp+
  have y: "str_flag (argParse dis_schema [''rom.bin'']) ''format'' = None"
      "\<not> badArgs (argParse dis_schema [''rom.bin''])"
      "\<not> bool_flag (argParse dis_schema [''rom.bin'']) ''help''"
      "length (positional (argParse dis_schema [''rom.bin''])) = 1"
      "console (argParse dis_schema [''rom.bin'']) = []"
    by code_simp+
  have z: "str_flag (argParse dis_schema [''rom.bin'', ''-f'', ''bin'']) ''format'' = Some ''bin''"
      "\<not> badArgs (argParse dis_schema [''rom.bin'', ''-f'', ''bin''])"
      "\<not> bool_flag (argParse dis_schema [''rom.bin'', ''-f'', ''bin'']) ''help''"
      "length (positional (argParse dis_schema [''rom.bin'', ''-f'', ''bin''])) = 1"
      "console (argParse dis_schema [''rom.bin'', ''-f'', ''bin'']) = []"
    by code_simp+
  have nx: "''xyz'' \<noteq> ''gba'' \<and> ''xyz'' \<noteq> ''bin''"
    by simp
  show ?thesis
    using C6_dis_format [of "argParse dis_schema [''rom.bin'', ''-f'', ''xyz'']" _ _ "''xyz''"]
      C6_dis_format [of "argParse dis_schema [''rom.bin'']"]
      C6_dis_format [of "argParse dis_schema [''rom.bin'', ''-f'', ''bin'']" _ _ "''bin''"]
      x y z nx
    by (simp add: parseDisArgs_def)
qed

subsection \<open>Defines of make and run\<close>





subsection \<open>The default output of make\<close>

lemma replaceExt_no_extension:
  "CHR ''.'' \<notin> set (lastSegment p) \<Longrightarrow> replaceExt p ext = p @ ext"
  by (simp add: replaceExt_def extLength_def)

lemma replaceExt_extension:
  assumes "CHR ''.'' \<notin> set e" and "CHR ''/'' \<notin> set e"
  shows "replaceExt (stem @ ''.'' @ e) ext = stem @ ext"
proof -
  have seg: "takeWhile (\<lambda>c. c \<noteq> CHR ''/'') (rev e @ CHR ''.'' # rev stem)
      = rev e @ takeWhile (\<lambda>c. c \<noteq> CHR ''/'') (CHR ''.'' # rev stem)"
    using assms(2) by (intro takeWhile_append2) auto
  have dot: "CHR ''.'' \<in> set (lastSegment (stem @ ''.'' @ e))"
    by (simp add: lastSegment_def seg)
  have ext: "takeWhile (\<lambda>c. c \<noteq> CHR ''.'') (rev e @ CHR ''.'' # rev stem) = rev e"
    using assms(1) by (subst takeWhile_append2) auto
  have "extLength (stem @ ''.'' @ e) = Suc (length e)"
    using dot by (simp add: extLength_def ext)
  then show ?thesis by (simp add: replaceExt_def)
qed

text \<open>
  C8. \<^verbatim>\<open>make a.gvasm\<close> without \<^verbatim>\<open>-o\<close> yields the output \<^verbatim>\<open>a.gba\<close>. In general,
  without \<^verbatim>\<open>-o\<close> the output of the descriptor is the input, the one positional
  operand, with its extension replaced by \<^verbatim>\<open>.gba\<close>: a path whose last segment has no
  dot gets \<^verbatim>\<open>.gba\<close> appended, and a path ending in a dot and an extension has that
  extension replaced.
\<close>

theorem C8_make_default_output:
  "parseMakeArgs [''a.gvasm''] =
       ([], Inr \<lparr>make_input = ''a.gvasm'', make_output = ''a.gba'', make_defines = [],
                  make_watch = False, make_execute = JBool False\<rparr>)
   \<and> (makeChecks st = (c, Inr d) \<and> str_flag st ''output'' = None \<longrightarrow>
        make_input d = positional st ! 0 \<and> make_output d = replaceExt (make_input d) ''.gba'')
   \<and> (CHR ''.'' \<notin> set (lastSegment p) \<longrightarrow> replaceExt p ''.gba'' = p @ ''.gba'')
   \<and> (CHR ''.'' \<notin> set e \<and> CHR ''/'' \<notin> set e \<longrightarrow>
        replaceExt (stem @ ''.'' @ e) ''.gba'' = stem @ ''.gba'')"
proof -
  have a: "parseMakeArgs [''a.gvasm''] =
       ([], Inr \<lparr>make_input = ''a.gvasm'', make_output = ''a.gba'', make_defines = [],
                  make_watch = False, make_execute = JBool False\<rparr>)"
    by code_simp
  have b: "makeChecks st = (c, Inr d) \<and> str_flag st ''output'' = None \<longrightarrow>
        make_input d = positional st ! 0 \<and> make_output d = replaceExt (make_input d) ''.gba''"
    by (auto simp: makeChecks_def Let_def nullish_def split: if_splits option.splits)
  from a b replaceExt_no_extension [of p "''.gba''"] replaceExt_extension [of e stem "''.gba''"]
  show ?thesis by blast
qed

theorem C8_make_default_output_witness:
  "makeChecks (argParse make_schema [''src/game'']) =
       ([], Inr \<lparr>make_input = ''src/game'', make_output = ''src/game.gba'', make_defines = [],
                  make_watch = False, make_execute = JBool False\<rparr>)
   \<and> str_flag (argParse make_schema [''src/game'']) ''output'' = None
   \<and> replaceExt ''src/game'' ''.gba'' = ''src/game.gba''
   \<and> replaceExt ''a.gvasm'' ''.gba'' = ''a.gba''"
proof -
  have mk: "makeChecks (argParse make_schema [''src/game'']) =
       ([], Inr \<lparr>make_input = ''src/game'', make_output = ''src/game.gba'', make_defines = [],
                  make_watch = False, make_execute = JBool False\<rparr>)"
    by code_simp
  have n: "str_flag (argParse make_schema [''src/game'']) ''output'' = None"
    by code_simp
  have seg: "CHR ''.'' \<notin> set (lastSegment ''src/game'')"
    by code_simp
  have e: "CHR ''.'' \<notin> set ''gvasm'' \<and> CHR ''/'' \<notin> set ''gvasm''"
    by simp
  note inst = C8_make_default_output [where st = "argParse make_schema [''src/game'']"
        and c = "[]"
        and d = "\<lparr>make_input = ''src/game'', make_output = ''src/game.gba'',
                  make_defines = [], make_watch = False, make_execute = JBool False\<rparr>"
        and p = "''src/game''" and e = "''gvasm''" and stem = "''a''"]
  from inst mk n
  have "make_output \<lparr>make_input = ''src/game'', make_output = ''src/game.gba'',
                  make_defines = [], make_watch = False, make_execute = JBool False\<rparr>
        = replaceExt (make_input \<lparr>make_input = ''src/game'', make_output = ''src/game.gba'',
                  make_defines = [], make_watch = False, make_execute = JBool False\<rparr>) ''.gba''"
    by blast
  then have r1: "replaceExt ''src/game'' ''.gba'' = ''src/game.gba''"
    by simp
  from inst e have "replaceExt (''a'' @ ''.'' @ ''gvasm'') ''.gba'' = ''a'' @ ''.gba''"
    by blast
  then have r2: "replaceExt ''a.gvasm'' ''.gba'' = ''a.gba''"
    by simp
  from mk n r1 r2 show ?thesis
    by blast
qed

subsection \<open>The version of init\<close>

text \<open>
  A run of digits followed by anything that is not a digit parses as the number the
  digits spell.
\<close>

lemma isDigit_cases:
  "isDigit c \<Longrightarrow> \<not> isWhiteSpace c \<and> c \<noteq> CHR ''-'' \<and> c \<noteq> CHR ''+''"
  by (auto simp: isDigit_def isWhiteSpace_def)

lemma takeWhile_digit_prefix:
  assumes "list_all isDigit ds" and "rest = [] \<or> \<not> isDigit (hd rest)"
  shows "takeWhile isDigit (ds @ rest) = ds"
proof -
  have "takeWhile isDigit rest = []"
    using assms(2) by (cases rest) auto
  moreover have "takeWhile isDigit (ds @ rest) = ds @ takeWhile isDigit rest"
    using assms(1) by (intro takeWhile_append2) (simp add: list_all_iff)
  ultimately show ?thesis by simp
qed

lemma parseInt_digit_prefix:
  assumes "ds \<noteq> []" and "list_all isDigit ds" and "rest = [] \<or> \<not> isDigit (hd rest)"
  shows "parseInt (ds @ rest) =
     (if int (digitsVal ds) > 9007199254740992 then Rounded (int (digitsVal ds))
      else Num (int (digitsVal ds)))"
proof -
  obtain c cs where ds: "ds = c # cs"
    using assms(1) by (cases ds) auto
  with assms(2) have c: "isDigit c"
    by simp
  have tw: "takeWhile isDigit (c # cs @ rest) = c # cs"
    using takeWhile_digit_prefix [OF assms(2) assms(3)] ds by simp
  show ?thesis
    using isDigit_cases [OF c] tw by (simp add: parseInt_def ds Let_def)
qed

lemma parseInt_zero: "parseInt ''0'' = Num 0"
  by code_simp



text \<open>
  Beyond \<^verbatim>\<open>2^53\<close> the result is a rounded double, and a minus sign before zero gives
  the negative zero.
\<close>

lemma digitsVal_big: "digitsVal ''9007199254740993'' = 9007199254740993"
  by (simp add: digitsVal_def digitVal_def)

lemma parseInt_rounded: "parseInt ''9007199254740993'' = Rounded 9007199254740993"
  using parseInt_digit_prefix [of "''9007199254740993''" "[]"] digitsVal_big
  by (simp add: isDigit_def)

lemma parseInt_negative_zero: "parseInt ''-0'' = NegZero"
  by code_simp










subsection \<open>The execute field of make\<close>

text \<open>
  C10. In a descriptor make produces, the execute field is the boolean false when
  \<^verbatim>\<open>-x\<close> is absent and the string given with \<^verbatim>\<open>-x\<close> otherwise.
\<close>

theorem C10_make_execute:
  "(makeChecks st = (c, Inr d) \<and> str_flag st ''execute'' = None \<longrightarrow>
      make_execute d = JBool False)
   \<and> (makeChecks st = (c, Inr d) \<and> str_flag st ''execute'' = Some x \<longrightarrow>
      make_execute d = JString x)
   \<and> parseMakeArgs [''a.gvasm''] =
       ([], Inr \<lparr>make_input = ''a.gvasm'', make_output = ''a.gba'', make_defines = [],
                  make_watch = False, make_execute = JBool False\<rparr>)
   \<and> parseMakeArgs [''a.gvasm'', ''-x'', ''open -F -g {}''] =
       ([], Inr \<lparr>make_input = ''a.gvasm'', make_output = ''a.gba'', make_defines = [],
                  make_watch = False, make_execute = JString ''open -F -g {}''\<rparr>)"
proof -
  have a: "makeChecks st = (c, Inr d) \<and> str_flag st ''execute'' = None \<longrightarrow>
      make_execute d = JBool False"
    by (auto simp: makeChecks_def Let_def nullish_def split: if_splits option.splits)
  have b: "makeChecks st = (c, Inr d) \<and> str_flag st ''execute'' = Some x \<longrightarrow>
      make_execute d = JString x"
    by (auto simp: makeChecks_def Let_def nullish_def split: if_splits option.splits)
  have e1: "parseMakeArgs [''a.gvasm''] =
       ([], Inr \<lparr>make_input = ''a.gvasm'', make_output = ''a.gba'', make_defines = [],
                  make_watch = False, make_execute = JBool False\<rparr>)"
    by code_simp
  have e2: "parseMakeArgs [''a.gvasm'', ''-x'', ''open -F -g {}''] =
       ([], Inr \<lparr>make_input = ''a.gvasm'', make_output = ''a.gba'', make_defines = [],
                  make_watch = False, make_execute = JString ''open -F -g {}''\<rparr>)"
    by code_simp
  from a b e1 e2 show ?thesis by blast
qed

theorem C10_make_execute_witness:
  "\<exists>d. parseMakeArgs [''a.gvasm'', ''-x'', ''open -F -g {}''] = ([], Inr d)
        \<and> make_execute d = JString ''open -F -g {}''
        \<and> str_flag (argParse make_schema [''a.gvasm'', ''-x'', ''open -F -g {}'']) ''execute''
            = Some ''open -F -g {}''"
proof -
  have mk: "makeChecks (argParse make_schema [''a.gvasm'', ''-x'', ''open -F -g {}'']) =
       ([], Inr \<lparr>make_input = ''a.gvasm'', make_output = ''a.gba'', make_defines = [],
                  make_watch = False, make_execute = JString ''open -F -g {}''\<rparr>)"
    by code_simp
  have s: "str_flag (argParse make_schema [''a.gvasm'', ''-x'', ''open -F -g {}'']) ''execute''
       = Some ''open -F -g {}''"
    by code_simp
  from C10_make_execute [where st = "argParse make_schema [''a.gvasm'', ''-x'', ''open -F -g {}'']"
      and c = "[]" and x = "''open -F -g {}''"
      and d = "\<lparr>make_input = ''a.gvasm'', make_output = ''a.gba'', make_defines = [],
                  make_watch = False, make_execute = JString ''open -F -g {}''\<rparr>"] mk s
  have "make_execute \<lparr>make_input = ''a.gvasm'', make_output = ''a.gba'', make_defines = [],
                  make_watch = False, make_execute = JString ''open -F -g {}''\<rparr>
          = JString ''open -F -g {}''"
    by blast
  with mk s show ?thesis
    unfolding parseMakeArgs_def by blast
qed

end
